theory Spec2Isabelle
  imports Main "HOL-Library.Word"
begin

section \<open>Errors, panics and the environment\<close>

text \<open>
  The store package (\<^verbatim>\<open>store/store.go\<close>) and the session helpers of the
  authentication package are embedded as HOL functions. A Go \<^verbatim>\<open>error\<close> result is an
  \<open>error option\<close> (\<open>None\<close> is \<^verbatim>\<open>nil\<close>) or the left summand of \<open>error + 'a\<close>; a run-time
  panic (a nil-pointer dereference, a failed type assertion, an index out of range) is the
  value \<open>Panic\<close> of the type \<open>'a outcome\<close>. \<open>Errorf\<close> is \<^verbatim>\<open>fmt.Errorf\<close> with a prefix and
  one wrapped error.
\<close>

datatype error =
    ErrNoCookie
  | ErrJSONSyntax
  | ErrJSONUnsupported
  | ErrSyntax
  | ErrRange
  | ErrConn
  | ErrRedisReply
  | ErrCommit
  | ErrBucketNameRequired
  | ErrKeyRequired
  | ErrKeyTooLarge
  | ErrValueTooLarge
  | Errorf string error

datatype 'a outcome = Panic | Return 'a

subsection \<open>Clock values\<close>

text \<open>
  \<^verbatim>\<open>int64\<close> arithmetic is integer arithmetic followed by \<open>wrap64\<close>. A \<^verbatim>\<open>time.Time\<close> is
  held the way the library holds it when no monotonic reading takes part in a comparison:
  seconds since the year 1 (an \<^verbatim>\<open>int64\<close>) and nanoseconds within the second.
\<close>

definition wrap64 :: "int \<Rightarrow> int" where
  "wrap64 x = (x + 2 ^ 63) mod 2 ^ 64 - 2 ^ 63"

record Time =
  isec :: int
  nsec :: int

definition unixToInternal :: int where
  "unixToInternal = 62135596800"

definition time_Unix :: "int \<Rightarrow> int \<Rightarrow> Time" where
  "time_Unix s n = \<lparr>isec = wrap64 (s + unixToInternal), nsec = n\<rparr>"

definition Time_Unix :: "Time \<Rightarrow> int" where
  "Time_Unix t = wrap64 (isec t - unixToInternal)"

definition Time_After :: "Time \<Rightarrow> Time \<Rightarrow> bool" where
  "Time_After t u = (isec t > isec u \<or> (isec t = isec u \<and> nsec t > nsec u))"

text \<open>
  Everything the code takes from outside a call is a field of \<open>env\<close>: the process clock
  (\<^verbatim>\<open>time.Now()\<close>), the clock of the remote key/value service in seconds, whether the
  pooled connection works (\<open>Some e\<close>: every \<^verbatim>\<open>conn.Do\<close> returns \<open>e\<close>), whether the commit of
  the first and of the second transaction of a local write fails, and the identifier that
  \<^verbatim>\<open>uuid.NewV4().String()\<close> produces.
\<close>

record env =
  now :: Time
  redis_now :: int
  conn_err :: "error option"
  commit1_err :: "error option"
  commit2_err :: "error option"
  uuid :: string

subsection \<open>\<^verbatim>\<open>strconv.FormatInt\<close> and \<^verbatim>\<open>strconv.ParseInt\<close> in base 10\<close>

definition digit_char :: "nat \<Rightarrow> char" where
  "digit_char d = ''0123456789'' ! (d mod 10)"

function digits10 :: "nat \<Rightarrow> string" where
  "digits10 n = (if n < 10 then [digit_char n] else digits10 (n div 10) @ [digit_char (n mod 10)])"
  by pat_completeness auto
termination
  by (relation "measure id") auto

declare digits10.simps [simp del]

definition FormatInt :: "int \<Rightarrow> string" where
  "FormatInt i = (if i < 0 then CHR ''-'' # digits10 (nat (- i)) else digits10 (nat i))"

definition digit_val :: "char \<Rightarrow> nat option" where
  "digit_val c = (let n = (of_char c :: nat) in if 48 \<le> n \<and> n \<le> 57 then Some (n - 48) else None)"

definition maxUint64 :: nat where
  "maxUint64 = 2 ^ 64 - 1"

text \<open>
  The loop of \<^verbatim>\<open>ParseUint\<close>: a byte that is no digit is a syntax error with value 0; an
  overflow of \<^verbatim>\<open>uint64\<close> ends the scan at once with the greatest value and a range error.
\<close>

fun ParseUint_loop :: "nat \<Rightarrow> string \<Rightarrow> nat \<times> error option" where
  "ParseUint_loop n [] = (n, None)"
| "ParseUint_loop n (c # cs) =
     (case digit_val c of
        None \<Rightarrow> (0, Some ErrSyntax)
      | Some d \<Rightarrow>
          if n \<ge> maxUint64 div 10 + 1 then (maxUint64, Some ErrRange)
          else (let n1 = n * 10 + d in
                if n1 > maxUint64 then (maxUint64, Some ErrRange) else ParseUint_loop n1 cs))"

definition ParseUint :: "string \<Rightarrow> nat \<times> error option" where
  "ParseUint s = (if s = [] then (0, Some ErrSyntax) else ParseUint_loop 0 s)"

definition ParseInt :: "string \<Rightarrow> int \<times> error option" where
  "ParseInt s =
     (if s = [] then (0, Some ErrSyntax)
      else
        (let neg = (hd s = CHR ''-'');
             s1 = (if hd s = CHR ''+'' \<or> hd s = CHR ''-'' then tl s else s);
             (un, err) = ParseUint s1
         in if err \<noteq> None \<and> err \<noteq> Some ErrRange then (0, err)
            else if \<not> neg \<and> un \<ge> 2 ^ 63 then (2 ^ 63 - 1, Some ErrRange)
            else if neg \<and> un > 2 ^ 63 then (- (2 ^ 63), Some ErrRange)
            else (if neg then - int un else int un, None)))"

section \<open>The store package\<close>

subsection \<open>\<^verbatim>\<open>encoding/json\<close>\<close>

text \<open>
  Serialization is outside the repository: \<^verbatim>\<open>json.Marshal\<close> for the value type at hand is
  the parameter \<open>marshal\<close> of every writer and the decoder is the parameter \<open>unmarshal\<close> of
  every reader. What \<^verbatim>\<open>json.Unmarshal\<close> does for every target type is kept here: input of
  length zero (a nil slice too) is a syntax error.
\<close>

definition json_Unmarshal :: "(string \<Rightarrow> error + 'v) \<Rightarrow> string option \<Rightarrow> error + 'v" where
  "json_Unmarshal unmarshal data =
     (case data of
        None \<Rightarrow> Inl ErrJSONSyntax
      | Some d \<Rightarrow> if d = [] then Inl ErrJSONSyntax else unmarshal d)"

subsection \<open>The networked backend: \<^verbatim>\<open>storer\<close>\<close>

text \<open>
  The remote service holds, for each key, a value and the instant it expires at.
  \<^verbatim>\<open>SETEX\<close> refuses a time that is not positive; \<^verbatim>\<open>GET\<close> answers a nil reply for a key
  that is absent or expired and never changes what is stored. \<open>conn_Do\<close> is \<^verbatim>\<open>conn.Do\<close> on
  the connection that \<^verbatim>\<open>pool.Get()\<close> returned.
\<close>

type_synonym redis = "string \<rightharpoonup> string \<times> int"

datatype command = SETEX string int string | GET string

datatype reply = NilReply | Bulk string | Status string

fun redis_exec :: "int \<Rightarrow> redis \<Rightarrow> command \<Rightarrow> (error + reply) \<times> redis" where
  "redis_exec t rs (SETEX k secs v) =
     (if secs \<le> 0 then (Inl ErrRedisReply, rs)
      else (Inr (Status ''OK''), rs(k \<mapsto> (v, t + secs))))"
| "redis_exec t rs (GET k) =
     (case rs k of
        None \<Rightarrow> (Inr NilReply, rs)
      | Some (v, deadline) \<Rightarrow>
          if deadline \<le> t then (Inr NilReply, rs) else (Inr (Bulk v), rs))"

definition conn_Do :: "env \<Rightarrow> redis \<Rightarrow> command \<Rightarrow> (error + reply) \<times> redis" where
  "conn_Do e rs cmd =
     (case conn_err e of
        Some err \<Rightarrow> (Inl err, rs)
      | None \<Rightarrow> redis_exec (redis_now e) rs cmd)"

text \<open>
  \<^verbatim>\<open>storer.Store\<close> (lines 25-34): the result of \<^verbatim>\<open>conn.Do("SETEX", ...)\<close> is dropped and
  \<^verbatim>\<open>nil\<close> is returned.
\<close>

definition storer_Store ::
  "('v \<Rightarrow> error + string) \<Rightarrow> env \<Rightarrow> redis \<Rightarrow> string \<Rightarrow> 'v \<Rightarrow> int \<Rightarrow> error option \<times> redis" where
  "storer_Store marshal e rs key val t =
     (case marshal val of
        Inl err \<Rightarrow> (Some err, rs)
      | Inr data \<Rightarrow> (None, snd (conn_Do e rs (SETEX key t data))))"

text \<open>
  \<^verbatim>\<open>storer.Retrieve\<close> (lines 36-44): the type assertion \<^verbatim>\<open>data.([]byte)\<close> has no
  comma-ok form, so every reply that is not a byte slice panics.
\<close>

definition storer_Retrieve ::
  "(string \<Rightarrow> error + 'v) \<Rightarrow> env \<Rightarrow> redis \<Rightarrow> string \<Rightarrow> ((error + 'v) \<times> redis) outcome" where
  "storer_Retrieve unmarshal e rs key =
     (case conn_Do e rs (GET key) of
        (Inl err, rs') \<Rightarrow> Return (Inl err, rs')
      | (Inr (Bulk d), rs') \<Rightarrow> Return (json_Unmarshal unmarshal (Some d), rs')
      | (Inr _, rs') \<Rightarrow> Panic)"

subsection \<open>The local backend: \<^verbatim>\<open>embedDB\<close>\<close>

text \<open>
  A bolt database is a map from bucket names to buckets, a bucket a map from keys to
  values. \<^verbatim>\<open>tx.Bucket\<close> returns nil for a bucket that does not exist, and \<^verbatim>\<open>Get\<close> on a nil
  bucket dereferences it. \<^verbatim>\<open>Put\<close> checks the key and the value sizes. \<^verbatim>\<open>db.Update\<close> keeps
  the changes of its function only if the function returns nil and the commit succeeds;
  \<^verbatim>\<open>db.View\<close> is read-only.
\<close>

type_synonym bucket = "string \<rightharpoonup> string"
type_synonym boltdb = "string \<rightharpoonup> bucket"

definition Tx_Bucket :: "boltdb \<Rightarrow> string \<Rightarrow> bucket option" where
  "Tx_Bucket tx name = tx name"

definition Tx_CreateBucketIfNotExists :: "boltdb \<Rightarrow> string \<Rightarrow> error + boltdb" where
  "Tx_CreateBucketIfNotExists tx name =
     (if name = [] then Inl ErrBucketNameRequired
      else (case tx name of None \<Rightarrow> Inr (tx(name \<mapsto> Map.empty)) | Some b \<Rightarrow> Inr tx))"

definition MaxKeySize :: nat where
  "MaxKeySize = 32768"

definition MaxValueSize :: nat where
  "MaxValueSize = 2 ^ 31 - 2"

definition Bucket_Put :: "boltdb \<Rightarrow> string \<Rightarrow> string \<Rightarrow> string \<Rightarrow> error option \<times> boltdb" where
  "Bucket_Put tx name key val =
     (if key = [] then (Some ErrKeyRequired, tx)
      else if length key > MaxKeySize then (Some ErrKeyTooLarge, tx)
      else if length val > MaxValueSize then (Some ErrValueTooLarge, tx)
      else (case tx name of
              None \<Rightarrow> (None, tx(name \<mapsto> [key \<mapsto> val]))
            | Some b \<Rightarrow> (None, tx(name \<mapsto> b(key \<mapsto> val)))))"

definition DB_Update ::
  "error option \<Rightarrow> boltdb \<Rightarrow> (boltdb \<Rightarrow> error option \<times> boltdb) \<Rightarrow> error option \<times> boltdb" where
  "DB_Update commit_err db fn =
     (case fn db of
        (Some err, tx) \<Rightarrow> (Some err, db)
      | (None, tx) \<Rightarrow>
          (case commit_err of Some err \<Rightarrow> (Some err, db) | None \<Rightarrow> (None, tx)))"

text \<open>
  \<^verbatim>\<open>embedDB.Store\<close> (lines 91-133): two transactions, one after the other. The error of
  the first is overwritten by the result of the second before anything reads it. The test
  of \<^verbatim>\<open>err\<close> on line 120 follows a successful bucket creation and never fires.
\<close>

definition embedDB_Store ::
  "('v \<Rightarrow> error + string) \<Rightarrow> env \<Rightarrow> boltdb \<Rightarrow> string \<Rightarrow> 'v \<Rightarrow> int \<Rightarrow> error option \<times> boltdb" where
  "embedDB_Store marshal e myDB key val ttd =
     (let (err1, db1) = DB_Update (commit1_err e) myDB
            (\<lambda>tx. case Tx_CreateBucketIfNotExists tx ''data'' of
                    Inl err \<Rightarrow> (Some (Errorf ''create bucket: '' err), tx)
                  | Inr tx1 \<Rightarrow>
                      (case marshal val of
                         Inl err \<Rightarrow> (Some err, tx1)
                       | Inr data \<Rightarrow> Bucket_Put tx1 ''data'' key data));
          (err2, db2) = DB_Update (commit2_err e) db1
            (\<lambda>tx. case Tx_CreateBucketIfNotExists tx ''expTimes'' of
                    Inl err \<Rightarrow> (Some (Errorf ''create bucket: '' err), tx)
                  | Inr tx1 \<Rightarrow>
                      (let expTime = wrap64 (Time_Unix (now e) + ttd);
                           timeStr = FormatInt expTime
                       in Bucket_Put tx1 ''expTimes'' key timeStr))
      in (case err2 of
            Some err \<Rightarrow> (Some (Errorf ''updating database: '' err), db2)
          | None \<Rightarrow> (None, db2)))"

text \<open>
  \<^verbatim>\<open>embedDB.Retrieve\<close> (lines 135-154): the expiry is looked up in the bucket
  \<^verbatim>\<open>"times"\<close>, and the payload is read when the clock is after the expiry. The function
  passed to \<^verbatim>\<open>View\<close> yields the payload (\<^verbatim>\<open>myData\<close>) and the error of \<^verbatim>\<open>ParseInt\<close>.
\<close>

definition embedDB_Retrieve ::
  "(string \<Rightarrow> error + 'v) \<Rightarrow> env \<Rightarrow> boltdb \<Rightarrow> string \<Rightarrow> ((error + 'v) \<times> boltdb) outcome" where
  "embedDB_Retrieve unmarshal e myDB key =
     (let data = Tx_Bucket myDB ''data'';
          times = Tx_Bucket myDB ''times''
      in case times of
           None \<Rightarrow> Panic
         | Some tb \<Rightarrow>
             (let expTime = tb key;
                  (timeStr, err) = ParseInt (case expTime of None \<Rightarrow> [] | Some s \<Rightarrow> s);
                  expSec = time_Unix timeStr 0
              in if Time_After (now e) expSec
                 then (case data of
                         None \<Rightarrow> Panic
                       | Some db \<Rightarrow>
                           (case err of
                              Some er \<Rightarrow> Return (Inl er, myDB)
                            | None \<Rightarrow> Return (json_Unmarshal unmarshal (db key), myDB)))
                 else (case err of
                         Some er \<Rightarrow> Return (Inl er, myDB)
                       | None \<Rightarrow> Return (json_Unmarshal unmarshal None, myDB))))"

subsection \<open>The interface \<^verbatim>\<open>Storer\<close>\<close>

datatype Storer = storer redis | embedDB boltdb

definition Store ::
  "('v \<Rightarrow> error + string) \<Rightarrow> env \<Rightarrow> Storer \<Rightarrow> string \<Rightarrow> 'v \<Rightarrow> int \<Rightarrow> error option \<times> Storer" where
  "Store marshal e s key val t =
     (case s of
        storer rs \<Rightarrow> (let (err, rs') = storer_Store marshal e rs key val t in (err, storer rs'))
      | embedDB db \<Rightarrow> (let (err, db') = embedDB_Store marshal e db key val t in (err, embedDB db')))"

definition Retrieve ::
  "(string \<Rightarrow> error + 'v) \<Rightarrow> env \<Rightarrow> Storer \<Rightarrow> string \<Rightarrow> ((error + 'v) \<times> Storer) outcome" where
  "Retrieve unmarshal e s key =
     (case s of
        storer rs \<Rightarrow>
          (case storer_Retrieve unmarshal e rs key of
             Panic \<Rightarrow> Panic
           | Return (r, rs') \<Rightarrow> Return (r, storer rs'))
      | embedDB db \<Rightarrow>
          (case embedDB_Retrieve unmarshal e db key of
             Panic \<Rightarrow> Panic
           | Return (r, db') \<Rightarrow> Return (r, embedDB db')))"

section \<open>The session helpers of the authentication package\<close>

subsection \<open>Requests, cookies and client addresses\<close>

text \<open>
  A request carries its transport-level source address and the cookies the client sent, as
  name and value pairs in the order of the header. \<^verbatim>\<open>request.Cookie\<close> returns the first
  cookie of the name or \<^verbatim>\<open>ErrNoCookie\<close>. The response writer is the list of cookies set
  on it. The log is a list of entries, oldest first.
\<close>

record Request =
  RemoteAddr :: string
  Cookies :: "(string \<times> string) list"

record Cookie =
  Name :: string
  Value :: string
  Path :: string
  HttpOnly :: bool
  Secure :: bool

type_synonym ResponseWriter = "Cookie list"

datatype log_entry = Printf string string | Println string | PrintlnErr error

definition Request_Cookie :: "Request \<Rightarrow> string \<Rightarrow> error + string" where
  "Request_Cookie request name =
     (case filter (\<lambda>c. fst c = name) (Cookies request) of
        [] \<Rightarrow> Inl ErrNoCookie
      | c # _ \<Rightarrow> Inr (snd c))"

definition SetCookie :: "ResponseWriter \<Rightarrow> Cookie \<Rightarrow> ResponseWriter" where
  "SetCookie writer c = writer @ [c]"

text \<open>
  A \<^verbatim>\<open>net.IP\<close> is a byte slice, nil being the empty one. \<^verbatim>\<open>IP.Equal\<close> compares slices of
  the same length byte by byte and takes a 4-byte address as equal to its 16-byte form.
  \<^verbatim>\<open>net.ParseIP\<close> is the parameter \<open>parseIP\<close> of \<open>getIP\<close>.
\<close>

type_synonym IP = "8 word list"

definition v4InV6Prefix :: IP where
  "v4InV6Prefix = [0, 0, 0, 0, 0, 0, 0, 0, 0, 0, 255, 255]"

definition IP_Equal :: "IP \<Rightarrow> IP \<Rightarrow> bool" where
  "IP_Equal ip x =
     (if length ip = length x then ip = x
      else if length ip = 4 \<and> length x = 16 then take 12 x = v4InV6Prefix \<and> ip = drop 12 x
      else if length ip = 16 \<and> length x = 4 then take 12 ip = v4InV6Prefix \<and> drop 12 ip = x
      else False)"

text \<open>\<^verbatim>\<open>strings.Split\<close> with a separator of one byte: the pieces between the separators.\<close>

fun strings_Split :: "string \<Rightarrow> char \<Rightarrow> string list" where
  "strings_Split [] sep = ['''']"
| "strings_Split (c # cs) sep =
     (if c = sep then '''' # strings_Split cs sep
      else (case strings_Split cs sep of
              [] \<Rightarrow> [c # '''']
            | p # ps \<Rightarrow> (c # p) # ps))"

text \<open>\<^verbatim>\<open>getIP\<close> (lines 24-30); indexing a slice out of range panics.\<close>

definition getIP :: "(string \<Rightarrow> IP) \<Rightarrow> Request \<Rightarrow> IP outcome" where
  "getIP parseIP request =
     (let addr = RemoteAddr request
      in if CHR '':'' \<in> set addr
         then (case strings_Split addr (CHR '':'') of
                 [] \<Rightarrow> Panic
               | a # _ \<Rightarrow> Return (parseIP a))
         else Return (parseIP addr))"

subsection \<open>The user session\<close>

text \<open>
  \<^verbatim>\<open>protocol.AuthenticatedUser\<close> is declared in another package; the helpers read its
  fields \<^verbatim>\<open>Name\<close> and \<^verbatim>\<open>IP\<close> only, so it is a record with these two fields (\<open>UserName\<close>
  and \<open>UserIP\<close> here, \<open>Name\<close> being a field of the cookie) and whatever else it has as
  its extension. Each helper returns the log entries it wrote and the store it leaves
  behind.
\<close>

record AuthenticatedUser =
  UserName :: string
  UserIP :: IP

text \<open>\<^verbatim>\<open>retrieveUserFromSession\<close> (lines 32-54).\<close>

definition retrieveUserFromSession ::
  "(string \<Rightarrow> IP) \<Rightarrow> (string \<Rightarrow> error + 'a AuthenticatedUser_scheme) \<Rightarrow> env \<Rightarrow> Request \<Rightarrow> Storer
     \<Rightarrow> ('a AuthenticatedUser_scheme option \<times> log_entry list \<times> Storer) outcome" where
  "retrieveUserFromSession parseIP unmarshal e request store =
     (case Request_Cookie request ''lidp-user'' of
        Inl err \<Rightarrow> Return (None, [], store)
      | Inr cookie \<Rightarrow>
          (case Retrieve unmarshal e store cookie of
             Panic \<Rightarrow> Panic
           | Return (Inl err, store') \<Rightarrow> Return (None, [], store')
           | Return (Inr user, store') \<Rightarrow>
               (case getIP parseIP request of
                  Panic \<Rightarrow> Panic
                | Return ip \<Rightarrow>
                    if \<not> IP_Equal ip (UserIP user)
                    then Return (None,
                           [Printf ''Using exising session for %s'' (UserName user),
                            Println ''Warning - Existing session associated with a different IP address.''],
                           store')
                    else Return (Some user,
                           [Printf ''Using exising session for %s'' (UserName user)], store'))))"

text \<open>\<^verbatim>\<open>storeUserInSession\<close> (lines 57-71): the cookie is set before the write, and a failed write is logged only.\<close>

definition storeUserInSession ::
  "('a AuthenticatedUser_scheme \<Rightarrow> error + string) \<Rightarrow> env \<Rightarrow> ResponseWriter \<Rightarrow> Storer
     \<Rightarrow> 'a AuthenticatedUser_scheme \<Rightarrow> ResponseWriter \<times> log_entry list \<times> Storer" where
  "storeUserInSession marshal e writer store user =
     (let sessionID = uuid e;
          c = \<lparr>Name = ''lidp-user'', Value = sessionID, Path = ''/'', HttpOnly = True, Secure = True\<rparr>;
          writer' = SetCookie writer c;
          lg = [Printf ''Creating a new session for %s'' (UserName user)];
          (err, store') = Store marshal e store sessionID user 28800
      in (case err of
            Some er \<Rightarrow> (writer', lg @ [Println ''Failed to save session for user.''], store')
          | None \<Rightarrow> (writer', lg, store')))"

subsection \<open>The request state\<close>

text \<open>\<^verbatim>\<open>AuthnRequest\<close> is a pointer and may be nil.\<close>

record 'r RequestState =
  AuthnRequest :: "'r option"
  RelayState :: string

text \<open>\<^verbatim>\<open>storeRequestState\<close> (lines 78-90).\<close>

definition storeRequestState ::
  "('r RequestState \<Rightarrow> error + string) \<Rightarrow> env \<Rightarrow> ResponseWriter \<Rightarrow> Storer \<Rightarrow> 'r option \<Rightarrow> string
     \<Rightarrow> error option \<times> ResponseWriter \<times> Storer" where
  "storeRequestState marshal e writer store authnRequest relayState =
     (let sessionID = uuid e;
          state = \<lparr>AuthnRequest = authnRequest, RelayState = relayState\<rparr>;
          (err, store') = Store marshal e store sessionID state 300
      in (case err of
            Some er \<Rightarrow> (Some er, writer, store')
          | None \<Rightarrow>
              (let c = \<lparr>Name = ''lidp-rs'', Value = sessionID, Path = ''/'', HttpOnly = True, Secure = True\<rparr>
               in (None, SetCookie writer c, store'))))"

text \<open>\<^verbatim>\<open>retrieveRequestState\<close> (lines 92-106).\<close>

definition retrieveRequestState ::
  "(string \<Rightarrow> error + 'r RequestState) \<Rightarrow> env \<Rightarrow> Request \<Rightarrow> Storer
     \<Rightarrow> (('r option \<times> string) \<times> log_entry list \<times> Storer) outcome" where
  "retrieveRequestState unmarshal e request store =
     (case Request_Cookie request ''lidp-rs'' of
        Inl err \<Rightarrow> Return ((None, []), [], store)
      | Inr cookie \<Rightarrow>
          (case Retrieve unmarshal e store cookie of
             Panic \<Rightarrow> Panic
           | Return (Inl err, store') \<Rightarrow> Return ((None, []), [PrintlnErr err], store')
           | Return (Inr rs, store') \<Rightarrow> Return ((AuthnRequest rs, RelayState rs), [], store')))"

subsection \<open>An environment in which nothing fails\<close>

text \<open>Both clocks read \<open>t\<close> seconds, every connection and every commit works.\<close>

definition env_at :: "int \<Rightarrow> env" where
  "env_at t = \<lparr>now = time_Unix t 0, redis_now = t, conn_err = None,
               commit1_err = None, commit2_err = None, uuid = ''id-1''\<rparr>"

section \<open>Facts about the local backend\<close>

lemmas bolt_defs = Tx_Bucket_def DB_Update_def Tx_CreateBucketIfNotExists_def Bucket_Put_def
  MaxKeySize_def MaxValueSize_def

lemmas clock_defs = FormatInt_def digits10.simps digit_char_def Time_Unix_def time_Unix_def
  wrap64_def unixToInternal_def Time_After_def

lemmas parse_defs = ParseInt_def ParseUint_def digit_val_def maxUint64_def

text \<open>No write ever creates the bucket \<^verbatim>\<open>"times"\<close> that the read looks the expiry up in.\<close>

lemma DB_Update_times:
  assumes "db ''times'' = None"
    and "\<And>tx. tx ''times'' = None \<Longrightarrow> snd (fn tx) ''times'' = None"
  shows "snd (DB_Update ce db fn) ''times'' = None"
  using assms by (auto simp: DB_Update_def split: prod.splits option.splits) (metis snd_conv)

lemma Bucket_Put_other: "name \<noteq> b \<Longrightarrow> snd (Bucket_Put tx name k v) b = tx b"
  by (simp add: Bucket_Put_def split: option.splits)

lemma Store_tx1_times:
  "tx ''times'' = None \<Longrightarrow>
   snd (case Tx_CreateBucketIfNotExists tx ''data'' of
          Inl err \<Rightarrow> (Some (Errorf ''create bucket: '' err), tx)
        | Inr tx1 \<Rightarrow> (case marshal val of Inl err \<Rightarrow> (Some err, tx1)
                      | Inr data \<Rightarrow> Bucket_Put tx1 ''data'' key data)) ''times'' = None"
  by (auto simp: Tx_CreateBucketIfNotExists_def Bucket_Put_other split: sum.splits option.splits)

lemma Store_tx2_times:
  "tx ''times'' = None \<Longrightarrow>
   snd (case Tx_CreateBucketIfNotExists tx ''expTimes'' of
          Inl err \<Rightarrow> (Some (Errorf ''create bucket: '' err), tx)
        | Inr tx1 \<Rightarrow> Bucket_Put tx1 ''expTimes'' key ts) ''times'' = None"
  by (auto simp: Tx_CreateBucketIfNotExists_def Bucket_Put_other split: sum.splits option.splits)

lemma embedDB_Store_times:
  assumes "db ''times'' = None"
  shows "snd (embedDB_Store marshal e db key val ttd) ''times'' = None"
proof -
  let ?f1 = "\<lambda>tx. case Tx_CreateBucketIfNotExists tx ''data'' of
                    Inl err \<Rightarrow> (Some (Errorf ''create bucket: '' err), tx)
                  | Inr tx1 \<Rightarrow> (case marshal val of Inl err \<Rightarrow> (Some err, tx1)
                       | Inr data \<Rightarrow> Bucket_Put tx1 ''data'' key data)"
  let ?f2 = "\<lambda>tx. case Tx_CreateBucketIfNotExists tx ''expTimes'' of
                    Inl err \<Rightarrow> (Some (Errorf ''create bucket: '' err), tx)
                  | Inr tx1 \<Rightarrow> Bucket_Put tx1 ''expTimes'' key
                                 (FormatInt (wrap64 (Time_Unix (now e) + ttd)))"
  let ?db1 = "snd (DB_Update (commit1_err e) db ?f1)"
  have eq: "snd (embedDB_Store marshal e db key val ttd) = snd (DB_Update (commit2_err e) ?db1 ?f2)"
    unfolding embedDB_Store_def Let_def by (simp split: prod.splits option.splits)
  have d1: "?db1 ''times'' = None"
    by (rule DB_Update_times [where db = db, OF assms]) (rule Store_tx1_times)
  have "snd (DB_Update (commit2_err e) ?db1 ?f2) ''times'' = None"
    by (rule DB_Update_times [where db = ?db1, OF d1]) (rule Store_tx2_times)
  with eq show ?thesis by simp
qed

lemma embedDB_Retrieve_no_times:
  "db ''times'' = None \<Longrightarrow> embedDB_Retrieve unmarshal e db key = Panic"
  by (simp add: embedDB_Retrieve_def Tx_Bucket_def)

text \<open>
  Where a database does hold a bucket \<^verbatim>\<open>"times"\<close>, the comparison of the read is the
  other way round: before the expiry the payload is not read and decoding nothing fails,
  after the expiry the payload is returned.
\<close>

lemma embedDB_Retrieve_polarity:
  "embedDB_Retrieve Inr (env_at 1000)
       [''data'' \<mapsto> [''k'' \<mapsto> ''42''], ''times'' \<mapsto> [''k'' \<mapsto> ''1300'']] ''k''
     = Return (Inl ErrJSONSyntax, [''data'' \<mapsto> [''k'' \<mapsto> ''42''], ''times'' \<mapsto> [''k'' \<mapsto> ''1300'']]) \<and>
   embedDB_Retrieve Inr (env_at 1301)
       [''data'' \<mapsto> [''k'' \<mapsto> ''42''], ''times'' \<mapsto> [''k'' \<mapsto> ''1300'']] ''k''
     = Return (Inr ''42'', [''data'' \<mapsto> [''k'' \<mapsto> ''42''], ''times'' \<mapsto> [''k'' \<mapsto> ''1300'']])"
  by (simp add: embedDB_Retrieve_def bolt_defs clock_defs parse_defs env_at_def json_Unmarshal_def)

section \<open>The claims about the store\<close>

text \<open>
  C1. For the local backend, \<^verbatim>\<open>Retrieve\<close> is to return the stored value exactly when an
  expiry for the key is present and lies in the future. The code does not: on a fresh
  database, storing the value \<^verbatim>\<open>42\<close> under the key \<^verbatim>\<open>k\<close> for 300 seconds at second 1000
  succeeds and writes the payload and the expiry 1300 to the buckets \<^verbatim>\<open>"data"\<close> and
  \<^verbatim>\<open>"expTimes"\<close>; reading the key one second later, well before the expiry, looks for the
  bucket \<^verbatim>\<open>"times"\<close>, finds none and panics on the nil bucket.
\<close>

theorem embedDB_Retrieve_after_Store_panics:
  "embedDB_Store Inr (env_at 1000) Map.empty ''k'' ''42'' 300 =
     (None, [''data'' \<mapsto> [''k'' \<mapsto> ''42''], ''expTimes'' \<mapsto> [''k'' \<mapsto> ''1300'']]) \<and>
   embedDB_Retrieve Inr (env_at 1001)
       [''data'' \<mapsto> [''k'' \<mapsto> ''42''], ''expTimes'' \<mapsto> [''k'' \<mapsto> ''1300'']] ''k''
     = (Panic :: ((error + string) \<times> boltdb) outcome)"
  by (simp add: embedDB_Store_def embedDB_Retrieve_def bolt_defs clock_defs env_at_def)

text \<open>
  C2. For the local backend, a write is to change the payload and the expiry together or
  not at all, and to report a failure of either. The code does not: with a value that
  \<^verbatim>\<open>json.Marshal\<close> rejects, the first transaction is rolled back, the second writes the
  expiry, and the call returns nil, leaving an expiry without a payload; with a commit of
  the second transaction that fails, the payload stays written without an expiry.
\<close>

theorem embedDB_Store_not_atomic:
  "embedDB_Store (\<lambda>v. Inl ErrJSONUnsupported) (env_at 1000) Map.empty ''k'' v 300 =
     (None, [''expTimes'' \<mapsto> [''k'' \<mapsto> ''1300'']]) \<and>
   embedDB_Store Inr ((env_at 1000)\<lparr>commit2_err := Some ErrCommit\<rparr>) Map.empty ''k'' ''42'' 300 =
     (Some (Errorf ''updating database: '' ErrCommit), [''data'' \<mapsto> [''k'' \<mapsto> ''42'']])"
  by (simp add: embedDB_Store_def bolt_defs clock_defs env_at_def)

text \<open>
  C3. For the networked backend, a write that fails at the remote service is to come back
  as an error. The code drops the result of \<^verbatim>\<open>conn.Do\<close>: with a connection on which every
  command fails with \<open>err\<close>, for every key, every time and every value that serializes,
  \<^verbatim>\<open>Store\<close> returns nil and nothing is stored.
\<close>

theorem storer_Store_drops_write_error:
  "storer_Store (\<lambda>v. Inr (enc v)) (e\<lparr>conn_err := Some err\<rparr>) rs key val t = (None, rs)"
  by (simp add: storer_Store_def conn_Do_def)

text \<open>
  C4. On either backend, reading a key that was never written is to report not-found
  without crashing. The code panics on both: the networked backend asserts that the nil
  reply is a byte slice, the local backend calls \<^verbatim>\<open>Get\<close> on the nil bucket \<^verbatim>\<open>"times"\<close>.
\<close>

theorem Retrieve_unwritten_key_panics:
  "Retrieve unmarshal (e\<lparr>conn_err := None\<rparr>) (storer Map.empty) key = Panic \<and>
   Retrieve unmarshal e (embedDB Map.empty) key = Panic"
  by (simp add: Retrieve_def storer_Retrieve_def conn_Do_def embedDB_Retrieve_no_times)

section \<open>Facts about both backends\<close>

text \<open>A read leaves the store as it found it.\<close>

lemma Retrieve_store_unchanged:
  "Retrieve unmarshal e s key = Return (r, s') \<Longrightarrow> s' = s"
  by (cases s) (auto simp: Retrieve_def storer_Retrieve_def conn_Do_def embedDB_Retrieve_def Let_def Tx_Bucket_def
      split: outcome.splits prod.splits option.splits sum.splits reply.splits if_splits)

text \<open>The networked backend: an entry that has not expired is read back.\<close>

lemma storer_Retrieve_live:
  assumes "conn_err e = None" and "rs key = Some (d, deadline)" and "redis_now e < deadline"
  shows "storer_Retrieve unmarshal e rs key = Return (json_Unmarshal unmarshal (Some d), rs)"
  using assms by (simp add: storer_Retrieve_def conn_Do_def)

lemma storer_Store_then_Retrieve:
  assumes "conn_err e0 = None" and "conn_err e1 = None"
    and "marshal val = Inr d" and "d \<noteq> []" and "0 < t" and "redis_now e1 < redis_now e0 + t"
  shows "storer_Retrieve unmarshal e1 (snd (storer_Store marshal e0 rs key val t)) key =
           Return (unmarshal d, rs(key \<mapsto> (d, redis_now e0 + t)))"
  using assms by (simp add: storer_Store_def storer_Retrieve_def conn_Do_def json_Unmarshal_def)

text \<open>The local backend behind the interface.\<close>

lemma Store_embedDB_times:
  "db ''times'' = None \<Longrightarrow> \<exists>db'. snd (Store marshal e (embedDB db) key val t) = embedDB db' \<and> db' ''times'' = None"
  using embedDB_Store_times [of db marshal e key val t]
  by (simp add: Store_def case_prod_unfold Let_def)

lemma Retrieve_embedDB_no_times:
  "db ''times'' = None \<Longrightarrow> Retrieve unmarshal e (embedDB db) key = Panic"
  by (simp add: Retrieve_def embedDB_Retrieve_no_times)

section \<open>Facts about the client address\<close>

lemma strings_Split_nonempty: "strings_Split s sep \<noteq> []"
  by (induction s) (auto split: list.splits)

lemma getIP_returns: "\<exists>ip. getIP parseIP request = Return ip"
  using strings_Split_nonempty [of "RemoteAddr request" "CHR '':''"]
  by (auto simp: getIP_def Let_def split: list.splits)

lemma strings_Split_first:
  "sep \<notin> set host \<Longrightarrow> strings_Split (host @ sep # rest) sep = host # strings_Split rest sep"
  by (induction host) auto

lemma getIP_host_port:
  "CHR '':'' \<notin> set host \<Longrightarrow>
   getIP parseIP \<lparr>RemoteAddr = host @ CHR '':'' # port, Cookies = cs\<rparr> = Return (parseIP host)"
  by (simp add: getIP_def strings_Split_first)

section \<open>The claims about sessions and request state\<close>

text \<open>
  C5. Creating a session for a user and resolving it at once from the same client address
  is to return the user. On the local backend it does not: starting from a fresh database,
  for every user, every serialization, every identifier and every clock, the session is
  created and the resolution of the cookie just issued panics, because the read looks for
  the bucket \<^verbatim>\<open>"times"\<close> that no write creates.
\<close>

theorem session_on_local_backend_panics:
  "retrieveUserFromSession parseIP unmarshal e1
     \<lparr>RemoteAddr = addr, Cookies = [(''lidp-user'', uuid e0)]\<rparr>
     (snd (snd (storeUserInSession marshal e0 writer (embedDB Map.empty) user))) = Panic"
proof -
  obtain db' where s: "snd (Store marshal e0 (embedDB Map.empty) (uuid e0) user 28800) = embedDB db'"
    and t: "db' ''times'' = None"
    using Store_embedDB_times [of Map.empty marshal e0 "uuid e0" user 28800] by auto
  have "snd (snd (storeUserInSession marshal e0 writer (embedDB Map.empty) user)) = embedDB db'"
    using s unfolding storeUserInSession_def Let_def by (simp add: case_prod_unfold split: option.splits)
  then show ?thesis
    by (simp add: retrieveUserFromSession_def Request_Cookie_def Retrieve_embedDB_no_times [where db = db', OF t])
qed

text \<open>
  On the networked backend the round trip holds while the service is reachable, the record
  survives serialization and the entry has not expired.
\<close>

lemma session_roundtrip_networked:
  assumes "conn_err e0 = None" and "conn_err e1 = None"
    and "marshal user = Inr d" and "d \<noteq> []" and "unmarshal d = Inr user"
    and "redis_now e1 < redis_now e0 + 28800"
    and "Request_Cookie request ''lidp-user'' = Inr (uuid e0)"
    and "getIP parseIP request = Return ip" and "IP_Equal ip (UserIP user)"
  shows "retrieveUserFromSession parseIP unmarshal e1 request
           (snd (snd (storeUserInSession marshal e0 writer (storer rs) user)))
         = Return (Some user, [Printf ''Using exising session for %s'' (UserName user)],
                   storer (rs(uuid e0 \<mapsto> (d, redis_now e0 + 28800))))"
proof -
  have s: "snd (snd (storeUserInSession marshal e0 writer (storer rs) user))
             = storer (snd (storer_Store marshal e0 rs (uuid e0) user 28800))"
    unfolding storeUserInSession_def Let_def
    by (simp add: Store_def case_prod_unfold Let_def split: option.splits)
  have r: "storer_Retrieve unmarshal e1 (snd (storer_Store marshal e0 rs (uuid e0) user 28800)) (uuid e0)
             = Return (Inr user, rs(uuid e0 \<mapsto> (d, redis_now e0 + 28800)))"
    using storer_Store_then_Retrieve [of e0 e1 marshal user d 28800 unmarshal rs "uuid e0"] assms
    by simp
  show ?thesis
    using assms(7-9) by (simp add: retrieveUserFromSession_def s Retrieve_def r)
qed



text \<open>
  C7. A successful \<^verbatim>\<open>storeRequestState\<close> followed at once by \<^verbatim>\<open>retrieveRequestState\<close>
  with the issued cookie is to return the saved pair. On the local backend it does not:
  on a fresh database the save reports success and sets the cookie \<^verbatim>\<open>lidp-rs\<close>, for every
  request, relay string and serialization, and the load one second later panics.
\<close>

theorem request_state_on_local_backend_panics:
  "fst (storeRequestState marshal (env_at 1000) [] (embedDB Map.empty) req relay) = None \<and>
   fst (snd (storeRequestState marshal (env_at 1000) [] (embedDB Map.empty) req relay)) =
     [\<lparr>Name = ''lidp-rs'', Value = ''id-1'', Path = ''/'', HttpOnly = True, Secure = True\<rparr>] \<and>
   retrieveRequestState unmarshal (env_at 1001)
     \<lparr>RemoteAddr = addr, Cookies = [(''lidp-rs'', ''id-1'')]\<rparr>
     (snd (snd (storeRequestState marshal (env_at 1000) [] (embedDB Map.empty) req relay))) = Panic"
proof -
  let ?st = "\<lparr>AuthnRequest = req, RelayState = relay\<rparr>"
  obtain db' where s: "snd (Store marshal (env_at 1000) (embedDB Map.empty) ''id-1'' ?st 300) = embedDB db'"
    and t: "db' ''times'' = None"
    using Store_embedDB_times [of Map.empty marshal "env_at 1000" "''id-1''" ?st 300] by auto
  have f: "fst (Store marshal (env_at 1000) (embedDB Map.empty) ''id-1'' ?st 300) = None"
    unfolding Store_def embedDB_Store_def Let_def
    by (cases "marshal ?st") (simp_all add: bolt_defs env_at_def clock_defs case_prod_unfold)
  have u: "uuid (env_at 1000) = ''id-1''" by (simp add: env_at_def)
  have r: "storeRequestState marshal (env_at 1000) [] (embedDB Map.empty) req relay =
      (None, [\<lparr>Name = ''lidp-rs'', Value = ''id-1'', Path = ''/'', HttpOnly = True, Secure = True\<rparr>], embedDB db')"
    using s f unfolding storeRequestState_def Let_def u 
    by (simp add: SetCookie_def case_prod_unfold prod_eq_iff)
  show ?thesis
    by (simp add: r retrieveRequestState_def Request_Cookie_def Retrieve_embedDB_no_times [where db = db', OF t])
qed

text \<open>
  On the networked backend the round trip holds under the same conditions as for sessions;
  but a save whose write failed also reports success there, and the load that follows
  with a working connection panics on the nil reply.
\<close>

lemma request_state_roundtrip_networked:
  assumes "conn_err e0 = None" and "conn_err e1 = None"
    and "marshal \<lparr>AuthnRequest = req, RelayState = relay\<rparr> = Inr d" and "d \<noteq> []"
    and "unmarshal d = Inr \<lparr>AuthnRequest = req, RelayState = relay\<rparr>"
    and "redis_now e1 < redis_now e0 + 300"
    and "Request_Cookie request ''lidp-rs'' = Inr (uuid e0)"
  shows "retrieveRequestState unmarshal e1 request
           (snd (snd (storeRequestState marshal e0 writer (storer rs) req relay)))
         = Return ((req, relay), [], storer (rs(uuid e0 \<mapsto> (d, redis_now e0 + 300))))"
proof -
  let ?v = "\<lparr>AuthnRequest = req, RelayState = relay\<rparr>"
  have s: "snd (snd (storeRequestState marshal e0 writer (storer rs) req relay))
             = storer (snd (storer_Store marshal e0 rs (uuid e0) ?v 300))"
    unfolding storeRequestState_def Let_def
    by (simp add: Store_def case_prod_unfold Let_def split: option.splits)
  have r: "storer_Retrieve unmarshal e1 (snd (storer_Store marshal e0 rs (uuid e0) ?v 300)) (uuid e0)
             = Return (Inr ?v, rs(uuid e0 \<mapsto> (d, redis_now e0 + 300)))"
    using storer_Store_then_Retrieve [of e0 e1 marshal ?v d 300 unmarshal rs "uuid e0"] assms
    by simp
  show ?thesis
    using assms(7) by (simp add: retrieveRequestState_def s Retrieve_def r)
qed

lemma request_state_lost_networked:
  "fst (storeRequestState (\<lambda>s. Inr (enc s)) (e\<lparr>conn_err := Some err\<rparr>) writer (storer Map.empty) req relay) = None \<and>
   retrieveRequestState unmarshal (e'\<lparr>conn_err := None\<rparr>) \<lparr>RemoteAddr = addr, Cookies = [(''lidp-rs'', uuid e)]\<rparr>
     (snd (snd (storeRequestState (\<lambda>s. Inr (enc s)) (e\<lparr>conn_err := Some err\<rparr>) writer (storer Map.empty) req relay)))
   = Panic"
  unfolding storeRequestState_def Let_def
  by (simp add: Store_def storer_Store_def conn_Do_def retrieveRequestState_def Request_Cookie_def
      Retrieve_def storer_Retrieve_def)



text \<open>
  C9. The client address is to be the source address without its trailing port, parsed.
  The code cuts the address at its first colon instead: for the source address
  \<^verbatim>\<open>[::1]:8080\<close> of an IPv6 client it hands \<^verbatim>\<open>[\<close> to the parser.
\<close>

theorem getIP_bracketed_ipv6:
  "getIP parseIP \<lparr>RemoteAddr = ''[::1]:8080'', Cookies = cs\<rparr> = Return (parseIP ''['')"
  by (simp add: getIP_def)

text \<open>
  C10. \<^verbatim>\<open>retrieveRequestState\<close> does not consume the saved state. Whenever it returns,
  the store is the one it was given, on either backend. On the networked backend, when the
  entry under the cookie has not expired at the time of the first and of the second call
  and the connection works for both, the second call returns the same pair, log and store
  as the first.
\<close>

theorem retrieveRequestState_not_consumed:
  assumes "retrieveRequestState unmarshal e1 request store = Return (p, lg, store1)"
  shows "store1 = store \<and>
         (\<forall>rs cookie d deadline.
            store = storer rs \<and> Request_Cookie request ''lidp-rs'' = Inr cookie \<and>
            rs cookie = Some (d, deadline) \<and>
            conn_err e1 = None \<and> redis_now e1 < deadline \<and>
            conn_err e2 = None \<and> redis_now e2 < deadline
            \<longrightarrow> retrieveRequestState unmarshal e2 request store1 = Return (p, lg, store1))"
proof
  show u: "store1 = store"
    using assms Retrieve_store_unchanged [of unmarshal e1 store]
    by (auto simp: retrieveRequestState_def split: sum.splits outcome.splits prod.splits)
  show "\<forall>rs cookie d deadline.
            store = storer rs \<and> Request_Cookie request ''lidp-rs'' = Inr cookie \<and>
            rs cookie = Some (d, deadline) \<and>
            conn_err e1 = None \<and> redis_now e1 < deadline \<and>
            conn_err e2 = None \<and> redis_now e2 < deadline
            \<longrightarrow> retrieveRequestState unmarshal e2 request store1 = Return (p, lg, store1)"
  proof (intro allI impI)
    fix rs cookie d deadline
    assume h: "store = storer rs \<and> Request_Cookie request ''lidp-rs'' = Inr cookie \<and>
            rs cookie = Some (d, deadline) \<and>
            conn_err e1 = None \<and> redis_now e1 < deadline \<and>
            conn_err e2 = None \<and> redis_now e2 < deadline"
    then have r1: "Retrieve unmarshal e1 store cookie = Return (json_Unmarshal unmarshal (Some d), store)"
      and r2: "Retrieve unmarshal e2 store cookie = Return (json_Unmarshal unmarshal (Some d), store)"
      by (simp_all add: Retrieve_def storer_Retrieve_live)
    from h have c: "Request_Cookie request ''lidp-rs'' = Inr cookie" by simp
    have "retrieveRequestState unmarshal e2 request store = retrieveRequestState unmarshal e1 request store"
      by (simp add: retrieveRequestState_def c r1 r2)
    with assms u show "retrieveRequestState unmarshal e2 request store1 = Return (p, lg, store1)"
      by simp
  qed
qed

theorem retrieveRequestState_not_consumed_witness:
  "retrieveRequestState (\<lambda>d. Inr \<lparr>AuthnRequest = Some d, RelayState = ''/home''\<rparr>) (env_at 1100)
      \<lparr>RemoteAddr = ''10.0.0.5:51234'', Cookies = [(''lidp-rs'', ''id-1'')]\<rparr>
      (storer [''id-1'' \<mapsto> (''req'', 1300)])
     = Return ((Some ''req'', ''/home''), [], storer [''id-1'' \<mapsto> (''req'', 1300)]) \<and>
   retrieveRequestState (\<lambda>d. Inr \<lparr>AuthnRequest = Some d, RelayState = ''/home''\<rparr>) (env_at 1299)
      \<lparr>RemoteAddr = ''10.0.0.5:51234'', Cookies = [(''lidp-rs'', ''id-1'')]\<rparr>
      (storer [''id-1'' \<mapsto> (''req'', 1300)])
     = Return ((Some ''req'', ''/home''), [], storer [''id-1'' \<mapsto> (''req'', 1300)])"
proof -
  let ?U = "\<lambda>d. Inr \<lparr>AuthnRequest = Some d, RelayState = ''/home''\<rparr> :: error + string RequestState"
  let ?rq = "\<lparr>RemoteAddr = ''10.0.0.5:51234'', Cookies = [(''lidp-rs'', ''id-1'')]\<rparr>"
  let ?rs = "[''id-1'' \<mapsto> (''req'', 1300 :: int)]"
  have first: "retrieveRequestState ?U (env_at 1100) ?rq (storer ?rs)
                 = Return ((Some ''req'', ''/home''), [], storer ?rs)"
    by (simp add: retrieveRequestState_def Request_Cookie_def Retrieve_def storer_Retrieve_def
        conn_Do_def env_at_def json_Unmarshal_def)
  have c: "Request_Cookie ?rq ''lidp-rs'' = Inr ''id-1''"
    by (simp add: Request_Cookie_def)
  have "storer ?rs = storer ?rs \<and> Request_Cookie ?rq ''lidp-rs'' = Inr ''id-1'' \<and>
        ?rs ''id-1'' = Some (''req'', 1300) \<and>
        conn_err (env_at 1100) = None \<and> redis_now (env_at 1100) < 1300 \<and>
        conn_err (env_at 1299) = None \<and> redis_now (env_at 1299) < 1300"
    using c by (simp add: env_at_def)
  with retrieveRequestState_not_consumed [OF first, of "env_at 1299"]
  have "retrieveRequestState ?U (env_at 1299) ?rq (storer ?rs)
          = Return ((Some ''req'', ''/home''), [], storer ?rs)"
    by blast
  with first show ?thesis by simp
qed

end
